theory Spec2Isabelle
  imports Main "HOL-Library.Word"
begin

section \<open>The plugin manager of the ChRIS store\<close>

text \<open>
  A shallow embedding of \<^verbatim>\<open>store_backend/plugins/services/manager.py\<close>: the class
  \<^verbatim>\<open>PluginManager\<close> with its operations \<^verbatim>\<open>add_plugin\<close>, \<^verbatim>\<open>modify_plugin\<close>,
  \<^verbatim>\<open>remove_plugin\<close>, \<^verbatim>\<open>run\<close>, \<^verbatim>\<open>get_plugin\<close> and \<^verbatim>\<open>get_plugin_descriptor_file\<close>.
  The database is an explicit state that every operation takes and returns; an exception
  is a value of type \<open>error\<close>, returned together with the state the database is in when
  the exception leaves the operation (Django runs these calls in autocommit mode and the
  manager opens no transaction, so what was written before a raise stays written).
\<close>

subsection \<open>Data\<close>

type_synonym bytes = "8 word list"

text \<open>
  Python's \<^verbatim>\<open>float\<close>, an IEEE-754 double, as its 64 bits. Nothing here computes
  with it; it only occurs as a leaf of a parsed JSON document.
\<close>

type_synonym pyfloat = "64 word"

text \<open>
  What \<^verbatim>\<open>json.loads\<close> returns: \<^verbatim>\<open>None\<close>, \<^verbatim>\<open>bool\<close>, \<^verbatim>\<open>int\<close>, \<^verbatim>\<open>float\<close>,
  \<^verbatim>\<open>str\<close>, \<^verbatim>\<open>list\<close> or \<^verbatim>\<open>dict\<close>. A dict is the list of its items in insertion order.
\<close>

datatype json =
    JNull
  | JBool bool
  | JInt int
  | JFloat pyfloat
  | JString string
  | JList "json list"
  | JDict "(string \<times> json) list"

text \<open>
  The functions of Python's standard library that the manager and the serializer call.
  They are not part of the repository, so the operations take them as a parameter:
  \<^item> \<open>json_loads\<close> is \<^verbatim>\<open>json.loads\<close> on a \<^verbatim>\<open>str\<close>; \<open>None\<close> when it raises
    \<^verbatim>\<open>JSONDecodeError\<close>;
  \<^item> \<open>json_dumps\<close> is \<^verbatim>\<open>json.dumps\<close>;
  \<^item> \<open>str_encode\<close> is \<^verbatim>\<open>str.encode\<close> (UTF-8);
  \<^item> \<open>json_loads_bytes\<close> parses the JSON text held in a byte string; \<open>None\<close> when
    the bytes are not a JSON document;
  \<^item> \<open>file_read\<close> is the byte content of the file at a path
    (\<^verbatim>\<open>open(path, 'rb').read()\<close>); \<open>None\<close> when the file cannot be opened.
\<close>

record pylib =
  json_loads :: "string \<Rightarrow> json option"
  json_dumps :: "json \<Rightarrow> string"
  str_encode :: "string \<Rightarrow> bytes"
  json_loads_bytes :: "bytes \<Rightarrow> json option"
  file_read :: "string \<Rightarrow> bytes option"

text \<open>
  The value that \<^verbatim>\<open>get_plugin_descriptor_file\<close> returns is one of two Python objects:
  the \<^verbatim>\<open>str\<close> given as \<^verbatim>\<open>--descriptorfile\<close>, or a Django \<^verbatim>\<open>ContentFile\<close> with a
  name and a byte content.
\<close>

datatype descriptor =
    PathStr string
  | ContentFile string bytes

text \<open>A row of \<^verbatim>\<open>django.contrib.auth.models.User\<close>; \<open>username\<close> is a unique column.\<close>

record user =
  user_id :: int
  username :: string

text \<open>
  A row of the \<^verbatim>\<open>Plugin\<close> model with the fields the manager and the specification
  name. \<open>owner\<close> is the many-to-many relation to users, as the list of related users.
\<close>

record plugin =
  plugin_id :: int
  name :: string
  owner :: "user list"
  public_repo :: string
  dock_image :: string
  descriptor_file :: descriptor
  version :: string
  creation_date :: nat
  modification_date :: nat

text \<open>
  The database: the plugin table, the next primary key of its sequence, the user table,
  and whether the plugin table has a uniqueness constraint on \<open>name\<close>.
\<close>

record store =
  plugins :: "plugin list"
  next_pk :: int
  users :: "user list"
  unique_names :: bool

text \<open>
  The exceptions. Where the specification has its own name for an exception of the code,
  the comment gives it.
\<close>

datatype error =
    UsageError                 \<comment> \<open>\<^verbatim>\<open>parser.error\<close>: message on stderr and \<^verbatim>\<open>SystemExit(2)\<close>\<close>
  | JSONDecodeError            \<comment> \<open>\<^verbatim>\<open>json.loads\<close>; the specification's MalformedDescriptorError\<close>
  | TypeError                  \<comment> \<open>\<^verbatim>\<open>json.loads(None)\<close>\<close>
  | MalformedDescriptorError   \<comment> \<open>the descriptor has no JSON content to read\<close>
  | MissingVersionError
  | ValidationError string     \<comment> \<open>carries the name of the field\<close>
  | UserDoesNotExist           \<comment> \<open>\<^verbatim>\<open>User.DoesNotExist\<close>; the specification's OwnerNotFoundError\<close>
  | OwnerNotFoundError
  | DuplicateNameError
  | NameError                  \<comment> \<open>raised by \<^verbatim>\<open>get_plugin\<close>; the specification's NotFoundError\<close>
  | OSError                    \<comment> \<open>the descriptor file cannot be opened\<close>

text \<open>The namespaces that \<^verbatim>\<open>parse_args\<close> builds for the three subcommands.\<close>

record add_args =
  add_name :: string
  add_owner :: string
  add_publicrepo :: string
  add_dockerimage :: string
  descriptorfile :: "string option"
  descriptorstring :: "string option"

record modify_args =
  modify_id :: int
  modify_publicrepo :: string
  modify_dockerimage :: string
  newowner :: "string option"

record remove_args =
  remove_id :: int

text \<open>
  A command line, by subcommand (\<^verbatim>\<open>subparser_name\<close>). An option that is not on the
  command line is \<open>None\<close>, the default of \<^verbatim>\<open>argparse\<close>. \<open>NoSubcommand\<close> is a command
  line without a subcommand, which \<^verbatim>\<open>argparse\<close> accepts.
\<close>

datatype options =
    Add add_args
  | Modify modify_args
  | Remove remove_args
  | NoSubcommand

text \<open>The dictionary \<^verbatim>\<open>data\<close> handed to the serializer.\<close>

record candidate =
  data_name :: string
  data_public_repo :: string
  data_dock_image :: string
  data_descriptor_file :: descriptor
  data_version :: string

subsection \<open>Python and Django primitives\<close>

text \<open>Truth value of an optional string: \<^verbatim>\<open>None\<close> and \<^verbatim>\<open>''\<close> are false.\<close>

definition truthy :: "string option \<Rightarrow> bool" where
  "truthy x = (case x of None \<Rightarrow> False | Some s \<Rightarrow> s \<noteq> [])"

text \<open>
  \<^verbatim>\<open>parser.parse_args\<close>: the two descriptor options are in one mutually exclusive group
  (lines 39 to 43), so a command line with both is rejected with \<^verbatim>\<open>parser.error\<close>.
\<close>

definition parse_args :: "options \<Rightarrow> error + options" where
  "parse_args argv =
     (case argv of
        Add a \<Rightarrow>
          (if descriptorfile a \<noteq> None \<and> descriptorstring a \<noteq> None
           then Inl UsageError else Inr argv)
      | _ \<Rightarrow> Inr argv)"

text \<open>\<^verbatim>\<open>User.objects.get(username=n)\<close>.\<close>

definition User_objects_get :: "store \<Rightarrow> string \<Rightarrow> error + user" where
  "User_objects_get s n =
     (case find (\<lambda>u. username u = n) (users s) of
        None \<Rightarrow> Inl UserDoesNotExist
      | Some u \<Rightarrow> Inr u)"

text \<open>
  \<^verbatim>\<open>instance.save()\<close> of a model instance that has a row: the columns of the row with
  the instance's primary key are overwritten with the instance's attributes. The
  many-to-many relation is not a column and stays as the database has it.
\<close>

definition Model_save :: "plugin \<Rightarrow> store \<Rightarrow> store" where
  "Model_save p s =
     s\<lparr>plugins :=
         map (\<lambda>r. if plugin_id r = plugin_id p then p\<lparr>owner := owner r\<rparr> else r)
           (plugins s)\<rparr>"

text \<open>\<^verbatim>\<open>instance.delete()\<close>.\<close>

definition Model_delete :: "plugin \<Rightarrow> store \<Rightarrow> store" where
  "Model_delete p s =
     s\<lparr>plugins := filter (\<lambda>r. plugin_id r \<noteq> plugin_id p) (plugins s)\<rparr>"

text \<open>\<^verbatim>\<open>plugin.owner.all()\<close>: the users related to the row now in the database.\<close>

definition owner_all :: "plugin \<Rightarrow> store \<Rightarrow> user list" where
  "owner_all p s =
     (case find (\<lambda>r. plugin_id r = plugin_id p) (plugins s) of
        None \<Rightarrow> []
      | Some r \<Rightarrow> owner r)"

text \<open>
  \<^verbatim>\<open>plugin.owner.set(objs)\<close>: Django drops the related users that are not in \<open>objs\<close>
  and adds those of \<open>objs\<close> that are not yet related.
\<close>

definition m2m_set :: "user list \<Rightarrow> user list \<Rightarrow> user list" where
  "m2m_set old objs =
     filter (\<lambda>u. u \<in> set objs) old @ remdups (filter (\<lambda>u. u \<notin> set old) objs)"

definition owner_set :: "plugin \<Rightarrow> user list \<Rightarrow> store \<Rightarrow> store" where
  "owner_set p objs s =
     s\<lparr>plugins :=
         map (\<lambda>r. if plugin_id r = plugin_id p then r\<lparr>owner := m2m_set (owner r) objs\<rparr> else r)
           (plugins s)\<rparr>"

subsection \<open>The serializer\<close>

text \<open>
  The manager calls four methods of \<^verbatim>\<open>PluginSerializer\<close>, a class of
  \<^verbatim>\<open>plugins/serializers.py\<close>. This subsection defines them as the specification
  describes them.
\<close>

text \<open>
  Modelled from the spec: \<^verbatim>\<open>PluginSerializer.get_plugin_version_from_app_representation\<close>
  is missing. The specification (4.1): it "parses the resolved blob's JSON content and
  returns a version field from its top-level representation; fails with
  MissingVersionError if absent"; the version is a string (3, 6). The content of the
  blob: "If a file path is given, the blob is the file's byte content", and for a
  \<^verbatim>\<open>ContentFile\<close> it is the bytes that the file holds.
\<close>

definition version_of_content :: "pylib \<Rightarrow> bytes \<Rightarrow> error + string" where
  "version_of_content lib content =
     (case json_loads_bytes lib content of
        None \<Rightarrow> Inl MalformedDescriptorError
      | Some (JDict items) \<Rightarrow>
          (case map_of items ''version'' of
             None \<Rightarrow> Inl MissingVersionError
           | Some (JString v) \<Rightarrow> Inr v
           | Some _ \<Rightarrow> Inl (ValidationError ''version''))
      | Some _ \<Rightarrow> Inl MissingVersionError)"

definition get_plugin_version_from_app_representation ::
    "pylib \<Rightarrow> descriptor \<Rightarrow> error + string" where
  "get_plugin_version_from_app_representation lib df =
     (case df of
        PathStr p \<Rightarrow>
          (case file_read lib p of
             None \<Rightarrow> Inl OSError
           | Some content \<Rightarrow> version_of_content lib content)
      | ContentFile n content \<Rightarrow> version_of_content lib content)"

text \<open>
  Modelled from the spec: \<^verbatim>\<open>PluginSerializer.is_valid(raise_exception=True)\<close> is
  missing. The specification (4.2): "Required fields: name, public_repo, docker_image,
  descriptor_file, version. Missing or empty triggers ValidationError naming the field."
\<close>

definition descriptor_empty :: "descriptor \<Rightarrow> bool" where
  "descriptor_empty df =
     (case df of PathStr p \<Rightarrow> p = [] | ContentFile n content \<Rightarrow> content = [])"

definition is_valid :: "candidate \<Rightarrow> error + candidate" where
  "is_valid data =
     (if data_name data = [] then Inl (ValidationError ''name'')
      else if data_public_repo data = [] then Inl (ValidationError ''public_repo'')
      else if data_dock_image data = [] then Inl (ValidationError ''dock_image'')
      else if descriptor_empty (data_descriptor_file data)
        then Inl (ValidationError ''descriptor_file'')
      else if data_version data = [] then Inl (ValidationError ''version'')
      else Inr data)"

text \<open>
  Modelled from the spec: \<^verbatim>\<open>PluginSerializer.validate_new_owner\<close> is missing. The
  specification (4.2): "the named owner must already exist in the User collaborator
  store; absence fails with OwnerNotFoundError".
\<close>

definition validate_new_owner :: "store \<Rightarrow> string \<Rightarrow> error + user" where
  "validate_new_owner s n =
     (case find (\<lambda>u. username u = n) (users s) of
        None \<Rightarrow> Inl OwnerNotFoundError
      | Some u \<Rightarrow> Inr u)"

text \<open>
  Modelled from the spec: \<^verbatim>\<open>PluginSerializer.save\<close> is missing. The specification
  (4.3), for a serializer built without an instance: it "persists a new Plugin row with
  that owner as sole initial owner. Fails with DuplicateNameError if the repository
  enforces name uniqueness". The row gets the next primary key; both dates are the time
  of creation.
\<close>

definition serializer_create ::
    "candidate \<Rightarrow> user list \<Rightarrow> nat \<Rightarrow> store \<Rightarrow> error option \<times> store" where
  "serializer_create data owners now s =
     (if unique_names s \<and> data_name data \<in> set (map name (plugins s))
      then (Some DuplicateNameError, s)
      else (None,
        s\<lparr>plugins := plugins s @
             [\<lparr>plugin_id = next_pk s,
               name = data_name data,
               owner = owners,
               public_repo = data_public_repo data,
               dock_image = data_dock_image data,
               descriptor_file = data_descriptor_file data,
               version = data_version data,
               creation_date = now,
               modification_date = now\<rparr>],
           next_pk := next_pk s + 1\<rparr>))"

text \<open>
  Modelled from the spec: \<^verbatim>\<open>PluginSerializer.save\<close> is missing. The specification
  (4.3), for a serializer built on an instance: modify "builds a candidate preserving
  name/descriptor/version, updates public_repo and docker_image, validates, persists".
  The validated fields are assigned to the instance and the instance is saved; the
  result is the instance as it is in memory afterwards, and the database.
\<close>

definition serializer_update :: "plugin \<Rightarrow> candidate \<Rightarrow> store \<Rightarrow> plugin \<times> store" where
  "serializer_update instance data s =
     (let instance' = instance
            \<lparr>name := data_name data,
             public_repo := data_public_repo data,
             dock_image := data_dock_image data,
             descriptor_file := data_descriptor_file data,
             version := data_version data\<rparr>
      in (instance', Model_save instance' s))"

subsection \<open>The manager\<close>

text \<open>\<^verbatim>\<open>PluginManager.get_plugin\<close> (lines 117 to 126).\<close>

definition get_plugin :: "store \<Rightarrow> int \<Rightarrow> error + plugin" where
  "get_plugin s i =
     (case find (\<lambda>p. plugin_id p = i) (plugins s) of
        None \<Rightarrow> Inl NameError
      | Some p \<Rightarrow> Inr p)"

text \<open>
  \<^verbatim>\<open>PluginManager.get_plugin_descriptor_file\<close> (lines 128 to 139). With a
  \<^verbatim>\<open>--descriptorfile\<close> that is not empty the result is that string itself. Otherwise
  the \<^verbatim>\<open>--descriptorstring\<close> is parsed and printed again; \<^verbatim>\<open>json.loads(None)\<close> raises
  \<^verbatim>\<open>TypeError\<close>.
\<close>

definition descriptor_of_string :: "pylib \<Rightarrow> add_args \<Rightarrow> error + descriptor" where
  "descriptor_of_string lib args =
     (case descriptorstring args of
        None \<Rightarrow> Inl TypeError
      | Some src \<Rightarrow>
          (case json_loads lib src of
             None \<Rightarrow> Inl JSONDecodeError
           | Some app_repr \<Rightarrow>
               Inr (ContentFile (add_name args @ ''.json'')
                      (str_encode lib (json_dumps lib app_repr)))))"

definition get_plugin_descriptor_file :: "pylib \<Rightarrow> add_args \<Rightarrow> error + descriptor" where
  "get_plugin_descriptor_file lib args =
     (case descriptorfile args of
        Some f \<Rightarrow> if f \<noteq> [] then Inr (PathStr f) else descriptor_of_string lib args
      | None \<Rightarrow> descriptor_of_string lib args)"

text \<open>\<^verbatim>\<open>PluginManager.add_plugin\<close> (lines 58 to 70), at time \<open>now\<close>.\<close>

definition add_plugin :: "pylib \<Rightarrow> add_args \<Rightarrow> nat \<Rightarrow> store \<Rightarrow> error option \<times> store" where
  "add_plugin lib args now s =
     (case get_plugin_descriptor_file lib args of
        Inl e \<Rightarrow> (Some e, s)
      | Inr df \<Rightarrow>
          (case get_plugin_version_from_app_representation lib df of
             Inl e \<Rightarrow> (Some e, s)
           | Inr v \<Rightarrow>
               (case is_valid
                       \<lparr>data_name = add_name args,
                        data_public_repo = add_publicrepo args,
                        data_dock_image = add_dockerimage args,
                        data_descriptor_file = df,
                        data_version = v\<rparr> of
                  Inl e \<Rightarrow> (Some e, s)
                | Inr data \<Rightarrow>
                    (case User_objects_get s (add_owner args) of
                       Inl e \<Rightarrow> (Some e, s)
                     | Inr u \<Rightarrow> serializer_create data [u] now s))))"

text \<open>
  Lines 84 to 90 of \<^verbatim>\<open>modify_plugin\<close>: the new owner. The result is the database,
  or the exception of \<^verbatim>\<open>validate_new_owner\<close>.
\<close>

definition add_new_owner :: "plugin \<Rightarrow> string option \<Rightarrow> store \<Rightarrow> error + store" where
  "add_new_owner p new s =
     (case new of
        None \<Rightarrow> Inr s
      | Some n \<Rightarrow>
          (if n \<noteq> [] \<and> n \<notin> set (map username (owner_all p s))
           then (case validate_new_owner s n of
                   Inl e \<Rightarrow> Inl e
                 | Inr new_owner \<Rightarrow> Inr (owner_set p (owner_all p s @ [new_owner]) s))
           else Inr s))"

text \<open>\<^verbatim>\<open>PluginManager.modify_plugin\<close> (lines 72 to 92), at time \<open>now\<close>.\<close>

definition modify_plugin :: "modify_args \<Rightarrow> nat \<Rightarrow> store \<Rightarrow> error option \<times> store" where
  "modify_plugin args now s =
     (case get_plugin s (modify_id args) of
        Inl e \<Rightarrow> (Some e, s)
      | Inr p \<Rightarrow>
          (case is_valid
                  \<lparr>data_name = name p,
                   data_public_repo = modify_publicrepo args,
                   data_dock_image = modify_dockerimage args,
                   data_descriptor_file = descriptor_file p,
                   data_version = version p\<rparr> of
             Inl e \<Rightarrow> (Some e, s)
           | Inr data \<Rightarrow>
               (case serializer_update p data s of
                  (p', s1) \<Rightarrow>
                    (case add_new_owner p' (newowner args) s1 of
                       Inl e \<Rightarrow> (Some e, s1)
                     | Inr s2 \<Rightarrow>
                         (None, Model_save (p'\<lparr>modification_date := now\<rparr>) s2)))))"

text \<open>\<^verbatim>\<open>PluginManager.remove_plugin\<close> (lines 94 to 99).\<close>

definition remove_plugin :: "remove_args \<Rightarrow> store \<Rightarrow> error option \<times> store" where
  "remove_plugin args s =
     (case get_plugin s (remove_id args) of
        Inl e \<Rightarrow> (Some e, s)
      | Inr p \<Rightarrow> (None, Model_delete p s))"

text \<open>
  \<^verbatim>\<open>PluginManager.run\<close> (lines 101 to 115) on a command line, at time \<open>now\<close>.
  \<^verbatim>\<open>parser.error\<close> does not return.
\<close>

definition run :: "pylib \<Rightarrow> options \<Rightarrow> nat \<Rightarrow> store \<Rightarrow> error option \<times> store" where
  "run lib argv now s =
     (case parse_args argv of
        Inl e \<Rightarrow> (Some e, s)
      | Inr opts \<Rightarrow>
          (case opts of
             Add a \<Rightarrow>
               (if \<not> truthy (descriptorfile a) \<and> \<not> truthy (descriptorstring a)
                then (Some UsageError, s)
                else add_plugin lib a now s)
           | Modify m \<Rightarrow> modify_plugin m now s
           | Remove r \<Rightarrow> remove_plugin r s
           | NoSubcommand \<Rightarrow> (None, s)))"

subsection \<open>A concrete database and command lines\<close>

text \<open>
  The example of the specification (8): \<^verbatim>\<open>add simplefsapp cube
  https://github.com/x/simplefsapp fnndsc/simplefsapp --descriptorstring
  '{"version":"1.0"}'\<close>, in a database with the users \<open>cube\<close> and \<open>chris\<close>.
\<close>

definition version_doc_src :: string where
  \<open>version_doc_src = ''{"version":"1.0"}''\<close>

definition version_doc_text :: string where
  \<open>version_doc_text = ''{"version": "1.0"}''\<close>

definition version_doc :: json where
  "version_doc = JDict [(''version'', JString ''1.0'')]"

definition ascii_bytes :: "string \<Rightarrow> bytes" where
  "ascii_bytes t = map (\<lambda>c. of_nat (of_char c)) t"

text \<open>
  A library that agrees with Python on the one document of the example: its source
  parses to \<open>version_doc\<close>, which \<^verbatim>\<open>json.dumps\<close> prints with a space after the colon,
  and the encoding of an ASCII text is the text's characters. The one file is
  \<^verbatim>\<open>/tmp/simplefsapp.json\<close>, which holds the document.
\<close>

definition example_lib :: pylib where
  "example_lib =
     \<lparr>json_loads = (\<lambda>t. if t = version_doc_src \<or> t = version_doc_text
                         then Some version_doc else None),
      json_dumps = (\<lambda>j. if j = version_doc then version_doc_text else ''null''),
      str_encode = ascii_bytes,
      json_loads_bytes = (\<lambda>b. if b = ascii_bytes version_doc_src \<or> b = ascii_bytes version_doc_text
                               then Some version_doc else None),
      file_read = (\<lambda>p. if p = ''/tmp/simplefsapp.json''
                        then Some (ascii_bytes version_doc_text) else None)\<rparr>"

definition cube :: user where
  "cube = \<lparr>user_id = 1, username = ''cube''\<rparr>"

definition chris :: user where
  "chris = \<lparr>user_id = 2, username = ''chris''\<rparr>"

definition store0 :: store where
  "store0 = \<lparr>plugins = [], next_pk = 1, users = [cube, chris], unique_names = True\<rparr>"

definition add_simplefsapp :: add_args where
  "add_simplefsapp =
     \<lparr>add_name = ''simplefsapp'',
      add_owner = ''cube'',
      add_publicrepo = ''https://github.com/x/simplefsapp'',
      add_dockerimage = ''fnndsc/simplefsapp'',
      descriptorfile = None,
      descriptorstring = Some version_doc_src\<rparr>"

text \<open>The row that this command creates at time 7, and the database with it.\<close>

definition simplefsapp :: plugin where
  "simplefsapp =
     \<lparr>plugin_id = 1,
      name = ''simplefsapp'',
      owner = [cube],
      public_repo = ''https://github.com/x/simplefsapp'',
      dock_image = ''fnndsc/simplefsapp'',
      descriptor_file = ContentFile ''simplefsapp.json'' (ascii_bytes version_doc_text),
      version = ''1.0'',
      creation_date = 7,
      modification_date = 7\<rparr>"

definition store1 :: store where
  "store1 = \<lparr>plugins = [simplefsapp], next_pk = 2, users = [cube, chris], unique_names = True\<rparr>"

text \<open>
  The same command with \<^verbatim>\<open>--descriptorfile /tmp/simplefsapp.json\<close> in place of the
  string, and with neither option.
\<close>

definition add_from_file :: add_args where
  "add_from_file =
     add_simplefsapp\<lparr>descriptorfile := Some ''/tmp/simplefsapp.json'', descriptorstring := None\<rparr>"

definition add_without_descriptor :: add_args where
  "add_without_descriptor = add_simplefsapp\<lparr>descriptorstring := None\<rparr>"

definition add_with_both :: add_args where
  "add_with_both = add_simplefsapp\<lparr>descriptorfile := Some ''/tmp/simplefsapp.json''\<rparr>"

text \<open>
  \<^verbatim>\<open>modify 1 https://github.com/y/simplefsapp fnndsc/pl-simplefsapp\<close> with
  \<^verbatim>\<open>--newowner\<close> an owner (\<open>cube\<close>), a user who is not an owner (\<open>chris\<close>) and a name
  that no user has (\<open>ghost\<close>).
\<close>

definition modify_simplefsapp :: "string option \<Rightarrow> modify_args" where
  "modify_simplefsapp new =
     \<lparr>modify_id = 1,
      modify_publicrepo = ''https://github.com/y/simplefsapp'',
      modify_dockerimage = ''fnndsc/pl-simplefsapp'',
      newowner = new\<rparr>"

subsection \<open>The invariant of the specification\<close>

text \<open>Every row of the plugin table has at least one owner.\<close>

definition owners_inv :: "store \<Rightarrow> bool" where
  "owners_inv s = (\<forall>p \<in> set (plugins s). owner p \<noteq> [])"

section \<open>Properties\<close>

subsection \<open>Reading the plugin table after a write\<close>

lemma find_pk_map:
  assumes "\<And>r. plugin_id r = i \<Longrightarrow> plugin_id (g r) = i"
  shows "find (\<lambda>r. plugin_id r = j) (map (\<lambda>r. if plugin_id r = i then g r else r) xs) =
         map_option (\<lambda>r. if plugin_id r = i then g r else r) (find (\<lambda>r. plugin_id r = j) xs)"
  using assms by (induction xs) auto

lemma find_SomeD: "find P xs = Some x \<Longrightarrow> P x \<and> x \<in> set xs"
  by (induction xs) (auto split: if_splits)

lemma get_plugin_pk: "get_plugin s i = Inr p \<Longrightarrow> plugin_id p = i"
  by (auto simp: get_plugin_def split: option.splits dest: find_SomeD)

lemma get_plugin_in_table: "get_plugin s i = Inr p \<Longrightarrow> p \<in> set (plugins s)"
  by (auto simp: get_plugin_def split: option.splits dest: find_SomeD)

lemma get_plugin_Inl: "get_plugin s i = Inl e \<Longrightarrow> e = NameError"
  by (auto simp: get_plugin_def split: option.splits)

lemma get_plugin_absent: "(get_plugin s i = Inl NameError) = (i \<notin> set (map plugin_id (plugins s)))"
  by (auto simp: get_plugin_def find_None_iff split: option.splits dest: find_SomeD)

lemma get_plugin_Model_save:
  "get_plugin (Model_save p s) j =
     (case get_plugin s j of
        Inl e \<Rightarrow> Inl e
      | Inr r \<Rightarrow> Inr (if j = plugin_id p then p\<lparr>owner := owner r\<rparr> else r))"
proof -
  have "find (\<lambda>r. plugin_id r = j) (plugins (Model_save p s)) =
        map_option (\<lambda>r. if plugin_id r = plugin_id p then p\<lparr>owner := owner r\<rparr> else r)
          (find (\<lambda>r. plugin_id r = j) (plugins s))"
    unfolding Model_save_def
    using find_pk_map [where g = "\<lambda>r. p\<lparr>owner := owner r\<rparr>" and j = j and i = "plugin_id p"
        and xs = "plugins s"] by simp
  then show ?thesis
    by (auto simp: get_plugin_def split: option.splits dest: find_SomeD)
qed

lemma get_plugin_owner_set:
  "get_plugin (owner_set p objs s) j =
     (case get_plugin s j of
        Inl e \<Rightarrow> Inl e
      | Inr r \<Rightarrow> Inr (if j = plugin_id p then r\<lparr>owner := m2m_set (owner r) objs\<rparr> else r))"
proof -
  have "find (\<lambda>r. plugin_id r = j) (plugins (owner_set p objs s)) =
        map_option (\<lambda>r. if plugin_id r = plugin_id p then r\<lparr>owner := m2m_set (owner r) objs\<rparr> else r)
          (find (\<lambda>r. plugin_id r = j) (plugins s))"
    unfolding owner_set_def
    using find_pk_map [where g = "\<lambda>r. r\<lparr>owner := m2m_set (owner r) objs\<rparr>" and j = j
        and i = "plugin_id p" and xs = "plugins s"]
    by simp
  then show ?thesis
    by (auto simp: get_plugin_def split: option.splits dest: find_SomeD)
qed

lemma owner_all_get: "get_plugin s (plugin_id p) = Inr r \<Longrightarrow> owner_all p s = owner r"
  by (auto simp: get_plugin_def owner_all_def split: option.splits)

lemma m2m_set_append_new: "u \<notin> set old \<Longrightarrow> m2m_set old (old @ [u]) = old @ [u]"
  by (simp add: m2m_set_def)

lemma m2m_set_keeps: "set old \<subseteq> set objs \<Longrightarrow> set old \<subseteq> set (m2m_set old objs)"
  by (auto simp: m2m_set_def)

lemma m2m_set_nonempty: "objs \<noteq> [] \<Longrightarrow> m2m_set old objs \<noteq> []"
  by (cases objs) (auto simp: m2m_set_def filter_empty_conv)

lemma users_Model_save [simp]: "users (Model_save p s) = users s"
  and next_pk_Model_save [simp]: "next_pk (Model_save p s) = next_pk s"
  by (simp_all add: Model_save_def)

lemma users_owner_set [simp]: "users (owner_set p objs s) = users s"
  by (simp add: owner_set_def)

subsection \<open>The steps of \<open>modify_plugin\<close>\<close>

lemma filter_other_pk_map:
  assumes "\<And>r. plugin_id r = i \<Longrightarrow> plugin_id (g r) = i"
  shows "filter (\<lambda>r. plugin_id r \<noteq> i) (map (\<lambda>r. if plugin_id r = i then g r else r) xs) =
         filter (\<lambda>r. plugin_id r \<noteq> i) xs"
  using assms by (induction xs) auto

lemma others_Model_save:
  "filter (\<lambda>r. plugin_id r \<noteq> plugin_id p) (plugins (Model_save p s)) =
   filter (\<lambda>r. plugin_id r \<noteq> plugin_id p) (plugins s)"
  unfolding Model_save_def
  using filter_other_pk_map [where g = "\<lambda>r. p\<lparr>owner := owner r\<rparr>" and i = "plugin_id p"
      and xs = "plugins s"]
  by simp

lemma others_owner_set:
  "filter (\<lambda>r. plugin_id r \<noteq> plugin_id p) (plugins (owner_set p objs s)) =
   filter (\<lambda>r. plugin_id r \<noteq> plugin_id p) (plugins s)"
  unfolding owner_set_def
  using filter_other_pk_map [where g = "\<lambda>r. r\<lparr>owner := m2m_set (owner r) objs\<rparr>"
      and i = "plugin_id p" and xs = "plugins s"]
  by simp

lemma is_valid_Inr: "is_valid d = Inr d' \<Longrightarrow> d' = d"
  by (auto simp: is_valid_def split: if_splits)

text \<open>What \<open>add_new_owner\<close> leaves of a row whose instance is \<open>p\<close>.\<close>

lemma add_new_owner_others:
  "add_new_owner p new s = Inr s' \<Longrightarrow>
   filter (\<lambda>r. plugin_id r \<noteq> plugin_id p) (plugins s') =
   filter (\<lambda>r. plugin_id r \<noteq> plugin_id p) (plugins s)"
  by (auto simp: add_new_owner_def others_owner_set split: option.splits if_splits sum.splits)

lemma add_new_owner_row:
  assumes "add_new_owner p new s = Inr s'" and "get_plugin s (plugin_id p) = Inr r"
  shows "\<exists>os. get_plugin s' (plugin_id p) = Inr (r\<lparr>owner := os\<rparr>) \<and> set (owner r) \<subseteq> set os"
proof (cases "s' = s")
  case True
  with assms(2) have "get_plugin s' (plugin_id p) = Inr (r\<lparr>owner := owner r\<rparr>)" by simp
  then show ?thesis by blast
next
  case False
  with assms(1) obtain u where s': "s' = owner_set p (owner_all p s @ [u]) s"
    by (auto simp: add_new_owner_def split: option.splits if_splits sum.splits)
  have "owner_all p s = owner r" using assms(2) by (rule owner_all_get)
  with s' assms(2) have "get_plugin s' (plugin_id p) =
      Inr (r\<lparr>owner := m2m_set (owner r) (owner r @ [u])\<rparr>)"
    by (simp add: get_plugin_owner_set)
  moreover have "set (owner r) \<subseteq> set (m2m_set (owner r) (owner r @ [u]))"
    by (rule m2m_set_keeps) auto
  ultimately show ?thesis by blast
qed

lemma add_new_owner_users: "add_new_owner p new s = Inr s' \<Longrightarrow> users s' = users s"
  by (auto simp: add_new_owner_def split: option.splits if_splits sum.splits)

text \<open>\<open>modify_plugin\<close> on a plugin that exists, step by step.\<close>

lemma modify_plugin_found:
  assumes "get_plugin s (modify_id args) = Inr p"
  shows "modify_plugin args now s =
     (case is_valid
             \<lparr>data_name = name p,
              data_public_repo = modify_publicrepo args,
              data_dock_image = modify_dockerimage args,
              data_descriptor_file = descriptor_file p,
              data_version = version p\<rparr> of
        Inl e \<Rightarrow> (Some e, s)
      | Inr data \<Rightarrow>
          (let p' = p\<lparr>public_repo := modify_publicrepo args,
                      dock_image := modify_dockerimage args\<rparr>;
               s1 = Model_save p' s
           in case add_new_owner p' (newowner args) s1 of
                Inl e \<Rightarrow> (Some e, s1)
              | Inr s2 \<Rightarrow> (None, Model_save (p'\<lparr>modification_date := now\<rparr>) s2)))"
  using assms
  by (auto simp: modify_plugin_def serializer_update_def Let_def
      split: sum.splits dest!: is_valid_Inr)

lemma get_plugin_Model_save_same:
  "get_plugin s (plugin_id p) = Inr r \<Longrightarrow>
   get_plugin (Model_save p s) (plugin_id p) = Inr (p\<lparr>owner := owner r\<rparr>)"
  by (simp add: get_plugin_Model_save)

lemma get_plugin_first_save:
  assumes "get_plugin s i = Inr p"
  shows "get_plugin (Model_save (p\<lparr>public_repo := a, dock_image := b\<rparr>) s) i =
         Inr (p\<lparr>public_repo := a, dock_image := b\<rparr>)"
proof -
  have pk: "plugin_id p = i" using assms by (rule get_plugin_pk)
  have "get_plugin s (plugin_id (p\<lparr>public_repo := a, dock_image := b\<rparr>)) = Inr p"
    using assms pk by simp
  from get_plugin_Model_save_same [OF this] show ?thesis
    using pk by simp
qed

lemma modify_plugin_success_found:
  assumes "modify_plugin args now s = (None, s')"
  obtains p where "get_plugin s (modify_id args) = Inr p"
  using assms by (cases "get_plugin s (modify_id args)") (auto simp: modify_plugin_def)

subsection \<open>Owners are never lost\<close>

lemma owners_inv_Model_save: "owners_inv s \<Longrightarrow> owners_inv (Model_save p s)"
  by (auto simp: owners_inv_def Model_save_def)

lemma owners_inv_Model_delete: "owners_inv s \<Longrightarrow> owners_inv (Model_delete p s)"
  by (auto simp: owners_inv_def Model_delete_def)

lemma owners_inv_owner_set:
  "owners_inv s \<Longrightarrow> objs \<noteq> [] \<Longrightarrow> owners_inv (owner_set p objs s)"
  by (auto simp: owners_inv_def owner_set_def m2m_set_nonempty)

lemma owners_inv_add_new_owner:
  "owners_inv s \<Longrightarrow> add_new_owner p new s = Inr s' \<Longrightarrow> owners_inv s'"
  by (auto simp: add_new_owner_def owners_inv_owner_set split: option.splits if_splits sum.splits)

lemma owners_inv_serializer_create:
  "owners_inv s \<Longrightarrow> owners_inv (snd (serializer_create data [u] now s))"
  by (auto simp: owners_inv_def serializer_create_def)

lemma owners_inv_modify_plugin:
  assumes "owners_inv s"
  shows "owners_inv (snd (modify_plugin args now s))"
proof (cases "get_plugin s (modify_id args)")
  case (Inl e)
  then show ?thesis using assms by (simp add: modify_plugin_def)
next
  case (Inr p)
  show ?thesis
    using assms
    by (auto simp: modify_plugin_found [OF Inr] Let_def owners_inv_Model_save
        split: sum.splits dest: owners_inv_add_new_owner [rotated])
qed

lemma owners_inv_add_plugin:
  "owners_inv s \<Longrightarrow> owners_inv (snd (add_plugin lib args now s))"
  by (auto simp: add_plugin_def owners_inv_serializer_create split: sum.splits)

lemma owners_inv_remove_plugin:
  "owners_inv s \<Longrightarrow> owners_inv (snd (remove_plugin args s))"
  by (auto simp: remove_plugin_def owners_inv_Model_delete split: sum.splits)

lemma owners_inv_run:
  "owners_inv s \<Longrightarrow> owners_inv (snd (run lib argv now s))"
  by (auto simp: run_def owners_inv_add_plugin owners_inv_modify_plugin owners_inv_remove_plugin
      split: sum.splits options.splits)

lemma add_plugin_sole_owner:
  assumes "add_plugin lib args now s = (None, s')"
  shows "\<exists>r u. plugins s' = plugins s @ [r] \<and> owner r = [u] \<and> username u = add_owner args"
  using assms
  by (auto simp: add_plugin_def serializer_create_def User_objects_get_def
      split: sum.splits option.splits if_splits dest: find_SomeD)

lemma modify_plugin_keeps_owners:
  assumes "get_plugin s (modify_id args) = Inr p"
  shows "\<exists>p'. get_plugin (snd (modify_plugin args now s)) (modify_id args) = Inr p' \<and>
           set (owner p) \<subseteq> set (owner p')"
proof -
  have pk: "plugin_id p = modify_id args" using assms by (rule get_plugin_pk)
  define p' where "p' = p\<lparr>public_repo := modify_publicrepo args,
                           dock_image := modify_dockerimage args\<rparr>"
  define s1 where "s1 = Model_save p' s"
  have pk': "plugin_id p' = modify_id args" by (simp add: p'_def pk)
  have g0: "get_plugin s1 (modify_id args) = Inr p'"
    unfolding s1_def p'_def by (rule get_plugin_first_save [OF assms])
  then have g1: "get_plugin s1 (plugin_id p') = Inr p'"
    by (simp only: pk')
  show ?thesis
  proof (cases "is_valid
             \<lparr>data_name = name p,
              data_public_repo = modify_publicrepo args,
              data_dock_image = modify_dockerimage args,
              data_descriptor_file = descriptor_file p,
              data_version = version p\<rparr>")
    case (Inl e)
    then show ?thesis using assms by (simp add: modify_plugin_found)
  next
    case valid: (Inr data)
    show ?thesis
    proof (cases "add_new_owner p' (newowner args) s1")
      case (Inl e)
      then have "snd (modify_plugin args now s) = s1"
        using valid by (simp add: modify_plugin_found [OF assms] Let_def p'_def s1_def)
      then show ?thesis using g0 by (simp add: p'_def)
    next
      case (Inr s2)
      then have s': "snd (modify_plugin args now s) =
          Model_save (p'\<lparr>modification_date := now\<rparr>) s2"
        using valid by (simp add: modify_plugin_found [OF assms] Let_def p'_def s1_def)
      from add_new_owner_row [OF Inr g1] obtain os where
        "get_plugin s2 (modify_id args) = Inr (p'\<lparr>owner := os\<rparr>)" "set (owner p') \<subseteq> set os"
        by (auto simp: pk')
      then show ?thesis
        by (simp add: s' get_plugin_Model_save pk p'_def)
    qed
  qed
qed

subsection \<open>The example, evaluated\<close>

lemmas manager_defs =
  run_def parse_args_def truthy_def add_plugin_def modify_plugin_def remove_plugin_def
  get_plugin_def get_plugin_descriptor_file_def descriptor_of_string_def add_new_owner_def
  get_plugin_version_from_app_representation_def version_of_content_def is_valid_def
  descriptor_empty_def validate_new_owner_def serializer_create_def serializer_update_def
  User_objects_get_def Model_save_def Model_delete_def owner_all_def owner_set_def m2m_set_def

lemmas example_defs =
  version_doc_src_def version_doc_text_def version_doc_def ascii_bytes_def example_lib_def
  cube_def chris_def store0_def store1_def add_simplefsapp_def simplefsapp_def
  add_from_file_def add_without_descriptor_def add_with_both_def modify_simplefsapp_def

lemma add_simplefsapp_run: "add_plugin example_lib add_simplefsapp 7 store0 = (None, store1)"
  by (simp add: manager_defs example_defs Let_def)

lemma modify_chris_run:
  "modify_plugin (modify_simplefsapp (Some ''chris'')) 9 store1 =
     (None, store1\<lparr>plugins :=
        [simplefsapp\<lparr>public_repo := ''https://github.com/y/simplefsapp'',
                      dock_image := ''fnndsc/pl-simplefsapp'',
                      owner := [cube, chris],
                      modification_date := 9\<rparr>]\<rparr>)"
  by (simp add: manager_defs example_defs Let_def)

lemma modify_cube_run:
  "modify_plugin (modify_simplefsapp (Some ''cube'')) 9 store1 =
     (None, store1\<lparr>plugins :=
        [simplefsapp\<lparr>public_repo := ''https://github.com/y/simplefsapp'',
                      dock_image := ''fnndsc/pl-simplefsapp'',
                      modification_date := 9\<rparr>]\<rparr>)"
  by (simp add: manager_defs example_defs Let_def)


lemma get_simplefsapp: "get_plugin store1 1 = Inr simplefsapp"
  by (simp add: get_plugin_def store1_def simplefsapp_def)

subsection \<open>The two branches of \<open>get_plugin_descriptor_file\<close>\<close>

lemma get_plugin_descriptor_file_path:
  "descriptorfile args = Some f \<Longrightarrow> f \<noteq> [] \<Longrightarrow>
   get_plugin_descriptor_file lib args = Inr (PathStr f)"
  by (simp add: get_plugin_descriptor_file_def)

lemma get_plugin_descriptor_file_string:
  "\<not> truthy (descriptorfile args) \<Longrightarrow> descriptorstring args = Some src \<Longrightarrow>
   get_plugin_descriptor_file lib args =
     (case json_loads lib src of
        None \<Rightarrow> Inl JSONDecodeError
      | Some app_repr \<Rightarrow>
          Inr (ContentFile (add_name args @ ''.json'')
                 (str_encode lib (json_dumps lib app_repr))))"
  by (auto simp: get_plugin_descriptor_file_def descriptor_of_string_def truthy_def
      split: option.splits)

subsection \<open>The version of a created row\<close>

text \<open>
  What \<open>add_plugin\<close> writes as the version, for either source of the descriptor and any
  library: with a descriptor string, the version of the document that the library reads
  from the printed blob; with a descriptor file, the version of the document in the file.
\<close>

lemma add_plugin_Some_row:
  assumes "add_plugin lib args now s = (None, s')"
    and "get_plugin_descriptor_file lib args = Inr df"
    and "get_plugin_version_from_app_representation lib df = Inr v"
  shows "\<exists>r. plugins s' = plugins s @ [r] \<and> plugin_id r = next_pk s \<and> version r = v \<and>
           descriptor_file r = df"
  using assms
  by (auto simp: add_plugin_def serializer_create_def
      split: sum.splits if_splits dest!: is_valid_Inr)

lemma add_plugin_version_string:
  assumes "add_plugin lib args now s = (None, s')"
    and "\<not> truthy (descriptorfile args)"
    and "descriptorstring args = Some src"
    and "json_loads lib src = Some j"
    and "json_loads_bytes lib (str_encode lib (json_dumps lib j)) = Some (JDict items)"
    and "map_of items ''version'' = Some (JString v)"
  shows "\<exists>r. plugins s' = plugins s @ [r] \<and> plugin_id r = next_pk s \<and> version r = v"
proof -
  define df where
    "df = ContentFile (add_name args @ ''.json'') (str_encode lib (json_dumps lib j))"
  have df: "get_plugin_descriptor_file lib args = Inr df"
    using assms(2,3,4) by (simp add: get_plugin_descriptor_file_string df_def)
  have ver: "get_plugin_version_from_app_representation lib df = Inr v"
    using assms(5,6)
    by (simp add: get_plugin_version_from_app_representation_def version_of_content_def df_def)
  from add_plugin_Some_row [OF assms(1) df ver] show ?thesis by blast
qed

lemma add_plugin_version_file:
  assumes "add_plugin lib args now s = (None, s')"
    and "descriptorfile args = Some f" and "f \<noteq> []"
    and "file_read lib f = Some content"
    and "json_loads_bytes lib content = Some (JDict items)"
    and "map_of items ''version'' = Some (JString v)"
  shows "\<exists>r. plugins s' = plugins s @ [r] \<and> plugin_id r = next_pk s \<and> version r = v"
proof -
  have df: "get_plugin_descriptor_file lib args = Inr (PathStr f)"
    using assms(2,3) by (rule get_plugin_descriptor_file_path)
  have ver: "get_plugin_version_from_app_representation lib (PathStr f) = Inr v"
    using assms(4,5,6)
    by (simp add: get_plugin_version_from_app_representation_def version_of_content_def)
  from add_plugin_Some_row [OF assms(1) df ver] show ?thesis by blast
qed

section \<open>The claims\<close>

text \<open>
  C2. For every invocation of \<open>run\<close> with the add subcommand where both
  \<^verbatim>\<open>--descriptorfile\<close> and \<^verbatim>\<open>--descriptorstring\<close> are supplied, or where neither is
  supplied, the invocation fails with a usage error and the store is unchanged.
\<close>

theorem run_add_usage_error:
  assumes "(descriptorfile a \<noteq> None \<and> descriptorstring a \<noteq> None) \<or>
           (descriptorfile a = None \<and> descriptorstring a = None)"
  shows "run lib (Add a) now s = (Some UsageError, s)"
  using assms by (auto simp: run_def parse_args_def truthy_def)

theorem run_add_usage_error_witness:
  "descriptorfile add_with_both \<noteq> None \<and> descriptorstring add_with_both \<noteq> None \<and>
   run example_lib (Add add_with_both) 7 store0 = (Some UsageError, store0) \<and>
   descriptorfile add_without_descriptor = None \<and>
   descriptorstring add_without_descriptor = None \<and>
   run example_lib (Add add_without_descriptor) 7 store0 = (Some UsageError, store0)"
proof -
  have both: "descriptorfile add_with_both \<noteq> None \<and> descriptorstring add_with_both \<noteq> None"
    by (simp add: add_with_both_def add_simplefsapp_def)
  have neither: "descriptorfile add_without_descriptor = None \<and>
                 descriptorstring add_without_descriptor = None"
    by (simp add: add_without_descriptor_def add_simplefsapp_def)
  from both have "run example_lib (Add add_with_both) 7 store0 = (Some UsageError, store0)"
    by (intro run_add_usage_error) simp
  moreover from neither have
    "run example_lib (Add add_without_descriptor) 7 store0 = (Some UsageError, store0)"
    by (intro run_add_usage_error) simp
  ultimately show ?thesis using both neither by simp
qed




text \<open>
  C4. For every add command given a \<^verbatim>\<open>--descriptorfile\<close> path, the resolved descriptor
  blob is the named file's byte content, named by its path. The code does not do this:
  for \<^verbatim>\<open>--descriptorfile /tmp/simplefsapp.json\<close> the function returns the path string
  itself, whatever the library and whatever the file holds; no file is opened.
\<close>

theorem get_plugin_descriptor_file_returns_path:
  "get_plugin_descriptor_file lib add_from_file = Inr (PathStr ''/tmp/simplefsapp.json'')"
  by (simp add: get_plugin_descriptor_file_def add_from_file_def add_simplefsapp_def)

text \<open>
  C5. For every plugin and every modify invocation on it whose \<^verbatim>\<open>--newowner\<close> is the
  username of one of the plugin's owners, the owners after the operation are the owners
  before it, whether the invocation succeeds or not.
\<close>

theorem modify_plugin_existing_owner:
  assumes "get_plugin s (modify_id args) = Inr p"
    and "newowner args = Some n"
    and "n \<in> set (map username (owner p))"
  shows "\<exists>p'. get_plugin (snd (modify_plugin args now s)) (modify_id args) = Inr p' \<and>
           owner p' = owner p"
proof -
  have pk: "plugin_id p = modify_id args" using assms(1) by (rule get_plugin_pk)
  define p' where "p' = p\<lparr>public_repo := modify_publicrepo args,
                           dock_image := modify_dockerimage args\<rparr>"
  define s1 where "s1 = Model_save p' s"
  have pk': "plugin_id p' = modify_id args" by (simp add: p'_def pk)
  have g0: "get_plugin s1 (modify_id args) = Inr p'"
    unfolding s1_def p'_def by (rule get_plugin_first_save [OF assms(1)])
  then have g1: "get_plugin s1 (plugin_id p') = Inr p'"
    by (simp only: pk')
  then have "owner_all p' s1 = owner p'" by (rule owner_all_get)
  then have same: "add_new_owner p' (newowner args) s1 = Inr s1"
    using assms(2,3) by (simp add: add_new_owner_def p'_def)
  show ?thesis
  proof (cases "is_valid
             \<lparr>data_name = name p,
              data_public_repo = modify_publicrepo args,
              data_dock_image = modify_dockerimage args,
              data_descriptor_file = descriptor_file p,
              data_version = version p\<rparr>")
    case (Inl e)
    then show ?thesis using assms(1) by (simp add: modify_plugin_found)
  next
    case (Inr data)
    then have "snd (modify_plugin args now s) = Model_save (p'\<lparr>modification_date := now\<rparr>) s1"
      using assms(1) same by (simp add: modify_plugin_found Let_def p'_def s1_def)
    then show ?thesis
      using g0 by (simp add: get_plugin_Model_save pk p'_def)
  qed
qed

theorem modify_plugin_existing_owner_witness:
  "get_plugin store1 1 = Inr simplefsapp \<and>
   newowner (modify_simplefsapp (Some ''cube'')) = Some ''cube'' \<and>
   ''cube'' \<in> set (map username (owner simplefsapp)) \<and>
   (\<exists>p'. get_plugin (snd (modify_plugin (modify_simplefsapp (Some ''cube'')) 9 store1)) 1 = Inr p' \<and>
         owner p' = owner simplefsapp)"
proof -
  have mid: "modify_id (modify_simplefsapp (Some ''cube'')) = 1"
    by (simp add: modify_simplefsapp_def)
  have h1: "get_plugin store1 (modify_id (modify_simplefsapp (Some ''cube''))) = Inr simplefsapp"
    by (simp only: mid get_simplefsapp)
  have h2: "newowner (modify_simplefsapp (Some ''cube'')) = Some ''cube''"
    by (simp add: modify_simplefsapp_def)
  have h3: "''cube'' \<in> set (map username (owner simplefsapp))"
    by (simp add: simplefsapp_def cube_def)
  from modify_plugin_existing_owner [OF h1 h2 h3, of 9] h1 h2 h3 show ?thesis
    unfolding mid by simp
qed

text \<open>
  C6. For every plugin and every successful modify invocation whose \<^verbatim>\<open>--newowner\<close>
  names an existing user who is not among the plugin's owners, the owners afterwards are
  the owners before and that one user, who was not an owner before. (A username is not
  empty: \<^verbatim>\<open>if args.newowner\<close> takes the empty string for no option.)
\<close>

theorem modify_plugin_new_owner:
  assumes "modify_plugin args now s = (None, s')"
    and "get_plugin s (modify_id args) = Inr p"
    and "newowner args = Some n" and "n \<noteq> []"
    and "find (\<lambda>u. username u = n) (users s) = Some u"
    and "n \<notin> set (map username (owner p))"
  shows "\<exists>p'. get_plugin s' (modify_id args) = Inr p' \<and>
           owner p' = owner p @ [u] \<and> u \<notin> set (owner p)"
proof -
  have pk: "plugin_id p = modify_id args" using assms(2) by (rule get_plugin_pk)
  define p' where "p' = p\<lparr>public_repo := modify_publicrepo args,
                           dock_image := modify_dockerimage args\<rparr>"
  define s1 where "s1 = Model_save p' s"
  have pk': "plugin_id p' = modify_id args" by (simp add: p'_def pk)
  have g0: "get_plugin s1 (modify_id args) = Inr p'"
    unfolding s1_def p'_def by (rule get_plugin_first_save [OF assms(2)])
  then have g1: "get_plugin s1 (plugin_id p') = Inr p'"
    by (simp only: pk')
  then have all: "owner_all p' s1 = owner p" by (simp add: owner_all_get p'_def)
  have "username u = n" using assms(5) by (auto dest: find_SomeD)
  with assms(6) have new: "u \<notin> set (owner p)" by auto
  have "validate_new_owner s1 n = Inr u"
    using assms(5) by (simp add: validate_new_owner_def s1_def)
  then have step: "add_new_owner p' (newowner args) s1 = Inr (owner_set p' (owner p @ [u]) s1)"
    using assms(3,4,6) all by (simp add: add_new_owner_def)
  have "s' = Model_save (p'\<lparr>modification_date := now\<rparr>) (owner_set p' (owner p @ [u]) s1)"
    using assms(1,2) step
    by (auto simp: modify_plugin_found Let_def p'_def s1_def split: sum.splits)
  then have "get_plugin s' (modify_id args) =
      Inr (p'\<lparr>modification_date := now, owner := m2m_set (owner p) (owner p @ [u])\<rparr>)"
    using g0 by (simp add: get_plugin_Model_save get_plugin_owner_set pk p'_def)
  then show ?thesis
    using new by (simp add: m2m_set_append_new)
qed

theorem modify_plugin_new_owner_witness:
  "modify_plugin (modify_simplefsapp (Some ''chris'')) 9 store1 =
     (None, snd (modify_plugin (modify_simplefsapp (Some ''chris'')) 9 store1)) \<and>
   get_plugin store1 1 = Inr simplefsapp \<and>
   newowner (modify_simplefsapp (Some ''chris'')) = Some ''chris'' \<and>
   ''chris'' \<noteq> [] \<and>
   find (\<lambda>u. username u = ''chris'') (users store1) = Some chris \<and>
   ''chris'' \<notin> set (map username (owner simplefsapp)) \<and>
   (\<exists>p'. get_plugin (snd (modify_plugin (modify_simplefsapp (Some ''chris'')) 9 store1)) 1 = Inr p' \<and>
         owner p' = owner simplefsapp @ [chris] \<and> chris \<notin> set (owner simplefsapp))"
proof -
  have mid: "modify_id (modify_simplefsapp (Some ''chris'')) = 1"
    by (simp add: modify_simplefsapp_def)
  have h1: "modify_plugin (modify_simplefsapp (Some ''chris'')) 9 store1 =
     (None, snd (modify_plugin (modify_simplefsapp (Some ''chris'')) 9 store1))"
    by (simp add: modify_chris_run)
  have h2: "get_plugin store1 (modify_id (modify_simplefsapp (Some ''chris''))) = Inr simplefsapp"
    by (simp only: mid get_simplefsapp)
  have h3: "newowner (modify_simplefsapp (Some ''chris'')) = Some ''chris''"
    by (simp add: modify_simplefsapp_def)
  have h4: "''chris'' \<noteq> []" by simp
  have h5: "find (\<lambda>u. username u = ''chris'') (users store1) = Some chris"
    by (simp add: store1_def cube_def chris_def)
  have h6: "''chris'' \<notin> set (map username (owner simplefsapp))"
    by (simp add: simplefsapp_def cube_def)
  from modify_plugin_new_owner [OF h1 h2 h3 h4 h5 h6] h1 h2 h3 h5 h6 show ?thesis
    unfolding mid by simp
qed

text \<open>
  C7. \<open>remove_plugin\<close> on an id with no plugin in the store fails with the error of
  \<open>get_plugin\<close> (the specification's NotFoundError) and changes nothing; on an id with
  a plugin it succeeds and leaves no row with that id, the other rows and the users as
  they were.
\<close>

theorem remove_plugin_absent_present:
  "(remove_id args \<notin> set (map plugin_id (plugins s)) \<longrightarrow>
      remove_plugin args s = (Some NameError, s)) \<and>
   (remove_id args \<in> set (map plugin_id (plugins s)) \<longrightarrow>
      fst (remove_plugin args s) = None \<and>
      remove_id args \<notin> set (map plugin_id (plugins (snd (remove_plugin args s)))) \<and>
      plugins (snd (remove_plugin args s)) =
        filter (\<lambda>r. plugin_id r \<noteq> remove_id args) (plugins s) \<and>
      users (snd (remove_plugin args s)) = users s)"
proof (cases "get_plugin s (remove_id args)")
  case (Inl e)
  then have "e = NameError" by (rule get_plugin_Inl)
  with Inl have missing: "get_plugin s (remove_id args) = Inl NameError" by simp
  then have "remove_id args \<notin> set (map plugin_id (plugins s))"
    using get_plugin_absent [of s "remove_id args"] by blast
  with missing show ?thesis
    by (simp add: remove_plugin_def)
next
  case (Inr p)
  then have pk: "plugin_id p = remove_id args" by (rule get_plugin_pk)
  have "get_plugin s (remove_id args) \<noteq> Inl NameError" using Inr by simp
  then have present: "remove_id args \<in> set (map plugin_id (plugins s))"
    by (simp add: get_plugin_absent)
  show ?thesis
    using Inr present by (auto simp: remove_plugin_def Model_delete_def pk)
qed

theorem remove_plugin_absent_present_witness:
  "7 \<notin> set (map plugin_id (plugins store1)) \<and>
   remove_plugin \<lparr>remove_id = 7\<rparr> store1 = (Some NameError, store1) \<and>
   1 \<in> set (map plugin_id (plugins store1)) \<and>
   fst (remove_plugin \<lparr>remove_id = 1\<rparr> store1) = None \<and>
   1 \<notin> set (map plugin_id (plugins (snd (remove_plugin \<lparr>remove_id = 1\<rparr> store1)))) \<and>
   plugins (snd (remove_plugin \<lparr>remove_id = 1\<rparr> store1)) =
     filter (\<lambda>r. plugin_id r \<noteq> 1) (plugins store1) \<and>
   users (snd (remove_plugin \<lparr>remove_id = 1\<rparr> store1)) = users store1"
proof -
  have absent: "7 \<notin> set (map plugin_id (plugins store1))"
    by (simp add: store1_def simplefsapp_def)
  have present: "1 \<in> set (map plugin_id (plugins store1))"
    by (simp add: store1_def simplefsapp_def)
  from remove_plugin_absent_present [of "\<lparr>remove_id = 7\<rparr>" store1]
       remove_plugin_absent_present [of "\<lparr>remove_id = 1\<rparr>" store1]
       absent present
  show ?thesis by auto
qed

text \<open>
  C8. For every successful modify invocation on an existing plugin, the plugin's name,
  descriptor file and version are unchanged, its \<open>public_repo\<close> and \<open>dock_image\<close> are the
  given arguments, and its modification date is the current time; the rows of the other
  plugins are unchanged.
\<close>

theorem modify_plugin_frame:
  assumes "modify_plugin args now s = (None, s')"
  shows "\<exists>p p'. get_plugin s (modify_id args) = Inr p \<and>
           get_plugin s' (modify_id args) = Inr p' \<and>
           name p' = name p \<and> descriptor_file p' = descriptor_file p \<and>
           version p' = version p \<and>
           public_repo p' = modify_publicrepo args \<and>
           dock_image p' = modify_dockerimage args \<and>
           modification_date p' = now \<and>
           filter (\<lambda>r. plugin_id r \<noteq> modify_id args) (plugins s') =
           filter (\<lambda>r. plugin_id r \<noteq> modify_id args) (plugins s)"
proof -
  from assms obtain p where p: "get_plugin s (modify_id args) = Inr p"
    by (rule modify_plugin_success_found)
  then have pk: "plugin_id p = modify_id args" by (rule get_plugin_pk)
  define p' where "p' = p\<lparr>public_repo := modify_publicrepo args,
                           dock_image := modify_dockerimage args\<rparr>"
  define s1 where "s1 = Model_save p' s"
  have pk': "plugin_id p' = modify_id args" by (simp add: p'_def pk)
  from assms p obtain s2 where
    s2: "add_new_owner p' (newowner args) s1 = Inr s2" and
    s': "s' = Model_save (p'\<lparr>modification_date := now\<rparr>) s2"
    by (auto simp: modify_plugin_found Let_def p'_def s1_def split: sum.splits)
  have g0: "get_plugin s1 (modify_id args) = Inr p'"
    unfolding s1_def p'_def by (rule get_plugin_first_save [OF p])
  then have g1: "get_plugin s1 (plugin_id p') = Inr p'"
    by (simp only: pk')
  from add_new_owner_row [OF s2 g1] obtain os where
    g2: "get_plugin s2 (modify_id args) = Inr (p'\<lparr>owner := os\<rparr>)"
    by (auto simp: pk')
  have g3: "get_plugin s' (modify_id args) = Inr (p'\<lparr>modification_date := now, owner := os\<rparr>)"
    using g2 by (simp add: s' get_plugin_Model_save pk')
  have "filter (\<lambda>r. plugin_id r \<noteq> modify_id args) (plugins s') =
        filter (\<lambda>r. plugin_id r \<noteq> modify_id args) (plugins s2)"
    using others_Model_save [of "p'\<lparr>modification_date := now\<rparr>" s2] by (simp add: s' pk')
  also have "\<dots> = filter (\<lambda>r. plugin_id r \<noteq> modify_id args) (plugins s1)"
    using add_new_owner_others [OF s2] by (simp add: pk')
  also have "\<dots> = filter (\<lambda>r. plugin_id r \<noteq> modify_id args) (plugins s)"
    using others_Model_save [of p' s] by (simp add: s1_def pk')
  finally show ?thesis
    using p g3 by (simp add: p'_def)
qed

theorem modify_plugin_frame_witness:
  "modify_plugin (modify_simplefsapp None) 9 store1 =
     (None, snd (modify_plugin (modify_simplefsapp None) 9 store1)) \<and>
   (\<exists>p p'. get_plugin store1 1 = Inr p \<and>
      get_plugin (snd (modify_plugin (modify_simplefsapp None) 9 store1)) 1 = Inr p' \<and>
      name p' = name p \<and> descriptor_file p' = descriptor_file p \<and>
      version p' = version p \<and>
      public_repo p' = ''https://github.com/y/simplefsapp'' \<and>
      dock_image p' = ''fnndsc/pl-simplefsapp'' \<and>
      modification_date p' = 9 \<and>
      filter (\<lambda>r. plugin_id r \<noteq> 1)
        (plugins (snd (modify_plugin (modify_simplefsapp None) 9 store1))) =
      filter (\<lambda>r. plugin_id r \<noteq> 1) (plugins store1))"
proof -
  have h: "modify_plugin (modify_simplefsapp None) 9 store1 =
     (None, snd (modify_plugin (modify_simplefsapp None) 9 store1))"
    by (simp add: manager_defs example_defs Let_def)
  from modify_plugin_frame [OF h] h show ?thesis
    by (simp add: modify_simplefsapp_def)
qed

text \<open>
  C9. Every plugin row in the store has at least one owner at all times: the invariant
  \<open>owners_inv\<close> is preserved by every command, whether it succeeds or fails;
  \<open>add_plugin\<close> creates a row with exactly one owner, the user named on the command
  line; and after \<open>modify_plugin\<close> the plugin has every owner it had before.
\<close>

theorem owners_inv_preserved:
  "(owners_inv s \<longrightarrow> owners_inv (snd (run lib argv now s))) \<and>
   (\<forall>a s'. add_plugin lib a now s = (None, s') \<longrightarrow>
      (\<exists>r u. plugins s' = plugins s @ [r] \<and> owner r = [u] \<and> username u = add_owner a)) \<and>
   (\<forall>m p. get_plugin s (modify_id m) = Inr p \<longrightarrow>
      (\<exists>p'. get_plugin (snd (modify_plugin m now s)) (modify_id m) = Inr p' \<and>
         set (owner p) \<subseteq> set (owner p')))"
  using owners_inv_run [of s lib argv now] add_plugin_sole_owner [of lib _ now s]
    modify_plugin_keeps_owners [of s _ _ now]
  by blast

theorem owners_inv_preserved_witness:
  "owners_inv store1 \<and>
   owners_inv (snd (run example_lib (Modify (modify_simplefsapp (Some ''chris''))) 9 store1)) \<and>
   get_plugin store1 (modify_id (modify_simplefsapp (Some ''chris''))) = Inr simplefsapp \<and>
   (\<exists>p'. get_plugin (snd (modify_plugin (modify_simplefsapp (Some ''chris'')) 9 store1))
            (modify_id (modify_simplefsapp (Some ''chris''))) = Inr p' \<and>
         set (owner simplefsapp) \<subseteq> set (owner p')) \<and>
   add_plugin example_lib add_simplefsapp 7 store0 = (None, store1) \<and>
   (\<exists>r u. plugins store1 = plugins store0 @ [r] \<and> owner r = [u] \<and>
      username u = add_owner add_simplefsapp)"
proof -
  have inv: "owners_inv store1"
    by (simp add: owners_inv_def store1_def simplefsapp_def)
  have got: "get_plugin store1 (modify_id (modify_simplefsapp (Some ''chris''))) = Inr simplefsapp"
    by (simp add: modify_simplefsapp_def get_simplefsapp)
  note at_store1 = owners_inv_preserved
    [of store1 example_lib "Modify (modify_simplefsapp (Some ''chris''))" 9]
  note at_store0 = owners_inv_preserved [of store0 example_lib "Add add_simplefsapp" 7]
  from at_store1 inv have "owners_inv
      (snd (run example_lib (Modify (modify_simplefsapp (Some ''chris''))) 9 store1))"
    by blast
  moreover from at_store1 got have
    "\<exists>p'. get_plugin (snd (modify_plugin (modify_simplefsapp (Some ''chris'')) 9 store1))
            (modify_id (modify_simplefsapp (Some ''chris''))) = Inr p' \<and>
         set (owner simplefsapp) \<subseteq> set (owner p')"
    by blast
  moreover from at_store0 add_simplefsapp_run have
    "\<exists>r u. plugins store1 = plugins store0 @ [r] \<and> owner r = [u] \<and>
      username u = add_owner add_simplefsapp"
    by blast
  ultimately show ?thesis
    using inv got add_simplefsapp_run by blast
qed

end
